theory Spec2Isabelle
  imports Main "HOL-Library.Word" "HOL-Library.Sublist"
begin

section \<open>Values shared by the two packages\<close>

text \<open>
  A \<open>time.Time\<close> holds a count of seconds since Go's zero instant (January 1, year 1,
  00:00:00 UTC), an \<open>int64\<close>, and a count of nanoseconds within the second, from 0 to
  999999999. The model writes the two as one integer, seconds times 10^9 plus nanoseconds,
  so that \<open>t div 10^9\<close> and \<open>t mod 10^9\<close> give them back, \<open>IsZero\<close> is equality with 0, and
  \<open>Before\<close> and \<open>After\<close> are the strict orders. The integers that stand for a \<open>time.Time\<close>
  are the \<open>representable\<close> ones. The location and the optional monotonic reading of a
  \<open>time.Time\<close> are not modelled.
  A \<open>time.Duration\<close> is an \<open>int64\<close> count of nanoseconds.
\<close>

type_synonym Time = int
type_synonym Duration = "64 word"

definition representable :: "Time \<Rightarrow> bool" where
  "representable t \<longleftrightarrow> - (2 ^ 63) * 1000000000 \<le> t \<and> t < 2 ^ 63 * 1000000000"

text \<open>Go's \<open>/\<close> and \<open>%\<close> on integers round towards zero.\<close>

definition quot :: "int \<Rightarrow> int \<Rightarrow> int" where
  "quot a b = (if (a < 0) = (b < 0) then \<bar>a\<bar> div \<bar>b\<bar> else - (\<bar>a\<bar> div \<bar>b\<bar>))"

definition rem :: "int \<Rightarrow> int \<Rightarrow> int" where
  "rem a b = a - b * quot a b"

text \<open>What an \<open>int64\<close> holds after an addition that overflowed.\<close>

definition wrap64 :: "int \<Rightarrow> int" where
  "wrap64 x = (x + 2 ^ 63) mod 2 ^ 64 - 2 ^ 63"

text \<open>
  \<open>Time.addSec\<close> of the standard library: the seconds are added in \<open>int64\<close>, and a sum that
  overflowed is replaced by the largest count of seconds, or by its negation.
\<close>

definition addSec :: "int \<Rightarrow> int \<Rightarrow> int" where
  "addSec ext d =
    (let sum = wrap64 (ext + d)
     in if (sum > ext) = (d > 0) then sum
        else if d > 0 then 2 ^ 63 - 1
        else - (2 ^ 63 - 1))"

text \<open>
  \<open>Time.Add\<close> of the standard library: the duration is split into seconds and nanoseconds,
  the nanoseconds are added and carried, the seconds are added by \<open>addSec\<close>.
\<close>

definition time_Add :: "Time \<Rightarrow> Duration \<Rightarrow> Time" where
  "time_Add t d =
    (let dsec = quot (sint d) 1000000000;
         nsec = t mod 1000000000 + rem (sint d) 1000000000;
         (dsec, nsec) =
           (if nsec \<ge> 1000000000 then (dsec + 1, nsec - 1000000000)
            else if nsec < 0 then (dsec - 1, nsec + 1000000000)
            else (dsec, nsec))
     in addSec (t div 1000000000) dsec * 1000000000 + nsec)"

definition IsZero :: "Time \<Rightarrow> bool" where
  "IsZero t = (t = 0)"

definition Before :: "Time \<Rightarrow> Time \<Rightarrow> bool" where
  "Before t u = (t < u)"

definition After :: "Time \<Rightarrow> Time \<Rightarrow> bool" where
  "After t u = (t > u)"

definition Second :: Duration where
  "Second = 1000000000"

text \<open>
  Values handed to \<open>fmt.Sprintf\<close> and \<open>fmt.Errorf\<close> are kept unrendered, next to the
  format string: the text is fixed by the two together.
\<close>

datatype arg = ArgUint "64 word" | ArgTime Time | ArgString string

datatype rendered = Lit string | Sprintf string "arg list"

text \<open>
  An error is either one built in the source (\<open>fmt.Errorf\<close>, \<open>errors.New\<close>) or one handed
  back from outside it (a collaborator, the operating system), of which only the identity
  matters.
\<close>

datatype error = Errorf string "arg list" | ErrorsNew string | External string

datatype status = StatusOngoing | StatusDone

datatype event = Event status rendered

fun err_of :: "error + 'a \<Rightarrow> error option" where
  "err_of (Inl e) = Some e"
| "err_of (Inr _) = None"

section \<open>Package network: LaunchParams, TriggerLaunch, RevertLaunch\<close>

record LaunchTimeRange =
  MinLaunchTime :: Duration
  MaxLaunchTime :: Duration

record Params =
  LaunchTimeRange :: LaunchTimeRange

datatype sdk_msg =
    MsgTriggerLaunch string "64 word" Time
  | MsgRevertLaunch string "64 word"

text \<open>The handle returned by \<open>BroadcastTx\<close>; \<open>Decode\<close> is what decoding it returns.\<close>

datatype Response = Response (Decode: "error option")

text \<open>
  Every call that leaves the package is recorded, in order, with the error it returned
  (\<open>None\<close> for nil, and for the calls that return no error).
\<close>

datatype ncall =
    Ev_Send event
  | LaunchQuery_Params
  | Clock_Now
  | Account_Address
  | Cosmos_BroadcastTx sdk_msg
  | Res_Decode
  | Chain_ResetGenesisTime

type_synonym nhistory = "(ncall \<times> error option) list"

text \<open>
  The fields of \<open>Network\<close> are interface values implemented elsewhere; a \<open>Network\<close> of the
  model says what each answers. A method that a run calls once has one answer. The clock
  is read twice by \<open>TriggerLaunch\<close>, and nothing makes it answer the same twice:
  \<open>clock_Now n k\<close> is its answer when it has been read \<open>k\<close> times before.
\<close>

record Network =
  launchQuery_Params :: "error + Params"
  clock_Now :: "nat \<Rightarrow> Time"
  account_Address :: "error + string"
  cosmos_BroadcastTx :: "sdk_msg \<Rightarrow> error + Response"

text \<open>The \<open>chain\<close> argument of \<open>RevertLaunch\<close>, of which one method is called.\<close>

record ChainHandle =
  ResetGenesisTime :: "error option"

definition MinLaunchTimeOffset :: Duration where
  "MinLaunchTimeOffset = Second * 30"

definition readings :: "nhistory \<Rightarrow> nat" where
  "readings h = length (filter (\<lambda>c. fst c = Clock_Now) h)"

definition ev_Send :: "event \<Rightarrow> nhistory \<Rightarrow> nhistory" where
  "ev_Send e h = h @ [(Ev_Send e, None)]"

definition now :: "Network \<Rightarrow> nhistory \<Rightarrow> nhistory \<times> Time" where
  "now n h = (h @ [(Clock_Now, None)], clock_Now n (readings h))"

definition Address :: "Network \<Rightarrow> nhistory \<Rightarrow> nhistory \<times> (error + string)" where
  "Address n h = (h @ [(Account_Address, err_of (account_Address n))], account_Address n)"

definition BroadcastTx ::
  "Network \<Rightarrow> sdk_msg \<Rightarrow> nhistory \<Rightarrow> nhistory \<times> (error + Response)" where
  "BroadcastTx n msg h =
    (h @ [(Cosmos_BroadcastTx msg, err_of (cosmos_BroadcastTx n msg))], cosmos_BroadcastTx n msg)"

definition decode :: "Response \<Rightarrow> nhistory \<Rightarrow> nhistory \<times> error option" where
  "decode res h = (h @ [(Res_Decode, Decode res)], Decode res)"

definition LaunchParams :: "Network \<Rightarrow> nhistory \<Rightarrow> nhistory \<times> (error + Params)" where
  "LaunchParams n h =
    (let h = h @ [(LaunchQuery_Params, err_of (launchQuery_Params n))]
     in case launchQuery_Params n of
          Inl err \<Rightarrow> (h, Inl err)
        | Inr params \<Rightarrow> (h, Inr params))"

text \<open>
  Lines 38 and 39 of \<open>TriggerLaunch\<close>: what \<open>minLaunchTime\<close> and \<open>maxLaunchTime\<close> are
  initialised to, as functions of the clock reading each is computed from and of the
  parameters.
\<close>

definition minLaunchTime_of :: "Time \<Rightarrow> Params \<Rightarrow> Time" where
  "minLaunchTime_of t params =
    time_Add (time_Add t (MinLaunchTime (LaunchTimeRange params))) MinLaunchTimeOffset"

definition maxLaunchTime_of :: "Time \<Rightarrow> Params \<Rightarrow> Time" where
  "maxLaunchTime_of t params = time_Add t (MaxLaunchTime (LaunchTimeRange params))"

text \<open>
  Lines 46 to 63 of \<open>TriggerLaunch\<close>: the launch time that goes into the message, or the
  error returned.
\<close>

definition checkLaunchTime :: "Time \<Rightarrow> Time \<Rightarrow> Time \<Rightarrow> error + Time" where
  "checkLaunchTime launchTime minLaunchTime maxLaunchTime =
    (if IsZero launchTime then Inr minLaunchTime
     else if Before launchTime minLaunchTime then
       Inl (Errorf ''launch time %s lower than minimum %s''
              [ArgTime launchTime, ArgTime minLaunchTime])
     else if After launchTime maxLaunchTime then
       Inl (Errorf ''launch time %s bigger than maximum %s''
              [ArgTime launchTime, ArgTime maxLaunchTime])
     else Inr launchTime)"

definition TriggerLaunch ::
  "Network \<Rightarrow> 64 word \<Rightarrow> Time \<Rightarrow> nhistory \<Rightarrow> nhistory \<times> error option" where
  "TriggerLaunch n launchID launchTime h =
    (let h = ev_Send (Event StatusOngoing (Sprintf ''Launching chain %d'' [ArgUint launchID])) h;
         (h, r) = LaunchParams n h
     in case r of
          Inl err \<Rightarrow> (h, Some err)
        | Inr params \<Rightarrow>
           (let (h, now1) = now n h;
                minLaunchTime = minLaunchTime_of now1 params;
                (h, now2) = now n h;
                maxLaunchTime = maxLaunchTime_of now2 params;
                (h, r) = Address n h
            in case r of
                 Inl err \<Rightarrow> (h, Some err)
               | Inr address \<Rightarrow>
                  (case checkLaunchTime launchTime minLaunchTime maxLaunchTime of
                     Inl err \<Rightarrow> (h, Some err)
                   | Inr launchTime \<Rightarrow>
                      (let msg = MsgTriggerLaunch address launchID launchTime;
                           h = ev_Send (Event StatusOngoing (Lit ''Setting launch time'')) h;
                           (h, r) = BroadcastTx n msg h
                       in case r of
                            Inl err \<Rightarrow> (h, Some err)
                          | Inr res \<Rightarrow>
                             (let (h, r) = decode res h
                              in case r of
                                   Some err \<Rightarrow> (h, Some err)
                                 | None \<Rightarrow>
                                    (ev_Send (Event StatusDone
                                       (Sprintf ''Chain %d will be launched on %s''
                                          [ArgUint launchID, ArgTime launchTime])) h,
                                     None))))))"

definition RevertLaunch ::
  "Network \<Rightarrow> 64 word \<Rightarrow> ChainHandle \<Rightarrow> nhistory \<Rightarrow> nhistory \<times> error option" where
  "RevertLaunch n launchID chain h =
    (let h = ev_Send (Event StatusOngoing
                        (Sprintf ''Reverting launched chain %d'' [ArgUint launchID])) h;
         (h, r) = Address n h
     in case r of
          Inl err \<Rightarrow> (h, Some err)
        | Inr address \<Rightarrow>
           (let msg = MsgRevertLaunch address launchID;
                (h, r) = BroadcastTx n msg h
            in case r of
                 Inl err \<Rightarrow> (h, Some err)
               | Inr _ \<Rightarrow>
                  (let h = ev_Send (Event StatusDone
                                      (Sprintf ''Chain %d launch was reverted''
                                         [ArgUint launchID])) h;
                       h = ev_Send (Event StatusOngoing (Lit ''Resetting the genesis time'')) h;
                       h = h @ [(Chain_ResetGenesisTime, ResetGenesisTime chain)]
                   in case ResetGenesisTime chain of
                        Some err \<Rightarrow> (h, Some err)
                      | None \<Rightarrow>
                         (ev_Send (Event StatusDone (Lit ''Genesis time was reset'')) h,
                          None))))"

section \<open>Package networkchain: Init, initGenesis, checkInitialGenesis\<close>

text \<open>The fields of \<open>Chain\<close> that the three methods read or assign.\<close>

record Chain =
  genesisURL :: string
  genesisHash :: string
  isInitialized :: bool

text \<open>Local storage: the content of every file, by path.\<close>

type_synonym fs = "string \<rightharpoonup> string"

text \<open>
  Modelled from the spec: \<open>cosmosutil.ChainGenesis\<close> and its method \<open>GenTxCount\<close> are not
  among the sources. The spec describes the parsed genesis as "a structural representation
  sufficient to count validator-submission transactions": the model keeps the list of
  those transactions, and \<open>GenTxCount\<close> is its length.
\<close>

record ChainGenesis =
  GenTxs :: "string list"

definition GenTxCount :: "ChainGenesis \<Rightarrow> int" where
  "GenTxCount g = int (length (GenTxs g))"

datatype ccall =
    Send event
  | Chain_Home
  | Chain_GenesisPath
  | Chain_Build
  | Chain_Init bool
  | Chain_Commands
  | Cmd_Init string
  | Cmd_ValidateGenesis
  | Cosmosutil_GenesisAndHashFromURL string
  | Cosmosutil_ParseChainGenesis
  | Os_RemoveAll string
  | Os_WriteFile string string
  | Os_ReadFile string

type_synonym chistory = "(ccall \<times> error option) list"

record world =
  calls :: chistory
  files :: fs

text \<open>
  What surrounds a \<open>Chain\<close>: the chain handle \<open>c.chain\<close> and the command runner it gives,
  the build step \<open>c.Build\<close>, the remote fetcher, the genesis parser and the failures of the
  operating system. Those that work on local storage answer from the files as they are at
  the time of the call, and those that run the chain binary or build it also say what the
  files are afterwards.
\<close>

record Env =
  chain_Home :: "fs \<Rightarrow> error + string"
  chain_GenesisPath :: "fs \<Rightarrow> error + string"
  chain_Build :: "fs \<Rightarrow> fs \<times> error option"
  chain_Init :: "bool \<Rightarrow> fs \<Rightarrow> fs \<times> error option"
  chain_Commands :: "fs \<Rightarrow> error option"
  cmd_Init :: "string \<Rightarrow> fs \<Rightarrow> fs \<times> error option"
  cmd_ValidateGenesis :: "fs \<Rightarrow> error option"
  cosmosutil_GenesisAndHashFromURL :: "string \<Rightarrow> error + string \<times> string"
  cosmosutil_ParseChainGenesis :: "string \<Rightarrow> error + ChainGenesis"
  os_failure :: "ccall \<Rightarrow> fs \<Rightarrow> error option"

definition record_call :: "ccall \<Rightarrow> error option \<Rightarrow> world \<Rightarrow> world" where
  "record_call c r w = w\<lparr>calls := calls w @ [(c, r)]\<rparr>"

definition send :: "event \<Rightarrow> world \<Rightarrow> world" where
  "send e w = record_call (Send e) None w"

definition Home :: "Env \<Rightarrow> world \<Rightarrow> world \<times> (error + string)" where
  "Home E w = (let r = chain_Home E (files w) in (record_call Chain_Home (err_of r) w, r))"

definition GenesisPath :: "Env \<Rightarrow> world \<Rightarrow> world \<times> (error + string)" where
  "GenesisPath E w =
    (let r = chain_GenesisPath E (files w) in (record_call Chain_GenesisPath (err_of r) w, r))"

definition Build :: "Env \<Rightarrow> world \<Rightarrow> world \<times> error option" where
  "Build E w =
    (let (f, r) = chain_Build E (files w) in (record_call Chain_Build r (w\<lparr>files := f\<rparr>), r))"

definition chainInit :: "Env \<Rightarrow> bool \<Rightarrow> world \<Rightarrow> world \<times> error option" where
  "chainInit E b w =
    (let (f, r) = chain_Init E b (files w) in (record_call (Chain_Init b) r (w\<lparr>files := f\<rparr>), r))"

definition Commands :: "Env \<Rightarrow> world \<Rightarrow> world \<times> error option" where
  "Commands E w = (let r = chain_Commands E (files w) in (record_call Chain_Commands r w, r))"

definition cmdInit :: "Env \<Rightarrow> string \<Rightarrow> world \<Rightarrow> world \<times> error option" where
  "cmdInit E moniker w =
    (let (f, r) = cmd_Init E moniker (files w)
     in (record_call (Cmd_Init moniker) r (w\<lparr>files := f\<rparr>), r))"

definition ValidateGenesis :: "Env \<Rightarrow> world \<Rightarrow> world \<times> error option" where
  "ValidateGenesis E w =
    (let r = cmd_ValidateGenesis E (files w) in (record_call Cmd_ValidateGenesis r w, r))"

definition GenesisAndHashFromURL ::
  "Env \<Rightarrow> string \<Rightarrow> world \<Rightarrow> world \<times> (error + string \<times> string)" where
  "GenesisAndHashFromURL E url w =
    (let r = cosmosutil_GenesisAndHashFromURL E url
     in (record_call (Cosmosutil_GenesisAndHashFromURL url) (err_of r) w, r))"

definition ParseChainGenesis ::
  "Env \<Rightarrow> string \<Rightarrow> world \<Rightarrow> world \<times> (error + ChainGenesis)" where
  "ParseChainGenesis E genesisFile w =
    (let r = cosmosutil_ParseChainGenesis E genesisFile
     in (record_call Cosmosutil_ParseChainGenesis (err_of r) w, r))"

text \<open>
  \<open>os.RemoveAll\<close> removes the path and everything below it, and is not an error on a path
  that does not exist; \<open>os.WriteFile\<close> replaces the content; \<open>os.ReadFile\<close> fails on a
  missing file. Each may also fail for a reason of the operating system's, in which case
  the model leaves the files as they were. Paths are compared as written, up to slashes at
  the end: \<open>.\<close>, \<open>..\<close>, doubled slashes and links are not resolved. The empty path names no
  tree.
\<close>

definition trim_slashes :: "string \<Rightarrow> string" where
  "trim_slashes path = rev (dropWhile (\<lambda>c. c = CHR ''/'') (rev path))"

definition remove_tree :: "string \<Rightarrow> fs \<Rightarrow> fs" where
  "remove_tree path f =
    (\<lambda>q. if q = path
              \<or> path \<noteq> ''''
                \<and> (trim_slashes q = trim_slashes path \<or> prefix (trim_slashes path @ ''/'') q)
         then None else f q)"

definition RemoveAll :: "Env \<Rightarrow> string \<Rightarrow> world \<Rightarrow> world \<times> error option" where
  "RemoveAll E path w =
    (case os_failure E (Os_RemoveAll path) (files w) of
       Some err \<Rightarrow> (record_call (Os_RemoveAll path) (Some err) w, Some err)
     | None \<Rightarrow>
        (record_call (Os_RemoveAll path) None (w\<lparr>files := remove_tree path (files w)\<rparr>),
         None))"

definition WriteFile :: "Env \<Rightarrow> string \<Rightarrow> string \<Rightarrow> world \<Rightarrow> world \<times> error option" where
  "WriteFile E path data w =
    (case os_failure E (Os_WriteFile path data) (files w) of
       Some err \<Rightarrow> (record_call (Os_WriteFile path data) (Some err) w, Some err)
     | None \<Rightarrow>
        (record_call (Os_WriteFile path data) None (w\<lparr>files := (files w)(path \<mapsto> data)\<rparr>),
         None))"

definition ReadFile :: "Env \<Rightarrow> string \<Rightarrow> world \<Rightarrow> world \<times> (error + string)" where
  "ReadFile E path w =
    (let r = (case os_failure E (Os_ReadFile path) (files w) of
                Some err \<Rightarrow> Inl err
              | None \<Rightarrow>
                 (case files w path of
                    None \<Rightarrow> Inl (External ''no such file or directory'')
                  | Some data \<Rightarrow> Inr data))
     in (record_call (Os_ReadFile path) (err_of r) w, r))"

definition checkInitialGenesis :: "Env \<Rightarrow> world \<Rightarrow> world \<times> error option" where
  "checkInitialGenesis E w =
    (let (w, r) = Commands E w
     in case r of
          Some err \<Rightarrow> (w, Some err)
        | None \<Rightarrow>
           (let (w, r) = GenesisPath E w
            in case r of
                 Inl err \<Rightarrow> (w, Some err)
               | Inr genesisPath \<Rightarrow>
                  (let (w, r) = ReadFile E genesisPath w
                   in case r of
                        Inl err \<Rightarrow> (w, Some err)
                      | Inr genesisFile \<Rightarrow>
                         (let (w, r) = ParseChainGenesis E genesisFile w
                          in case r of
                               Inl err \<Rightarrow> (w, Some err)
                             | Inr chainGenesis \<Rightarrow>
                                if GenTxCount chainGenesis > 0 then
                                  (w, Some (ErrorsNew
                                     ''the initial genesis for the chain should not contain gentx''))
                                else ValidateGenesis E w))))"

definition initGenesis :: "Env \<Rightarrow> Chain \<Rightarrow> world \<Rightarrow> Chain \<times> world \<times> error option" where
  "initGenesis E c w =
    (let w = send (Event StatusOngoing (Lit ''Computing the Genesis'')) w;
         (w, r) = GenesisPath E w
     in case r of
          Inl err \<Rightarrow> (c, w, Some err)
        | Inr genesisPath \<Rightarrow>
           (let (w, r) = RemoveAll E genesisPath w
            in case r of
                 Some err \<Rightarrow> (c, w, Some err)
               | None \<Rightarrow>
                  (let (c, w, r) =
                         (if genesisURL c \<noteq> '''' then
                            (let (w, r) = GenesisAndHashFromURL E (genesisURL c) w
                             in case r of
                                  Inl err \<Rightarrow> (c, w, Some err)
                                | Inr (genesis, hash) \<Rightarrow>
                                   (case (if genesisHash c = '''' then
                                            Inr (c\<lparr>genesisHash := hash\<rparr>)
                                          else if hash \<noteq> genesisHash c then
                                            Inl (Errorf
                                              ''genesis from URL %s is invalid. expected hash %s, actual hash %s''
                                              [ArgString (genesisURL c), ArgString (genesisHash c),
                                               ArgString hash])
                                          else Inr c) of
                                      Inl err \<Rightarrow> (c, w, Some err)
                                    | Inr c \<Rightarrow>
                                       (let (w, r) = WriteFile E genesisPath genesis w
                                        in (c, w, r))))
                          else
                            (let (w, r) = Commands E w
                             in case r of
                                  Some err \<Rightarrow> (c, w, Some err)
                                | None \<Rightarrow>
                                   (let (w, r) = cmdInit E ''moniker'' w in (c, w, r))))
                   in case r of
                        Some err \<Rightarrow> (c, w, Some err)
                      | None \<Rightarrow>
                         (let (w, r) = checkInitialGenesis E w
                          in case r of
                               Some err \<Rightarrow> (c, w, Some err)
                             | None \<Rightarrow>
                                (c, send (Event StatusDone (Lit ''Genesis initialized'')) w,
                                 None)))))"


section \<open>Names used in the statements\<close>

text \<open>The calls a run has added to the history it started from.\<close>

definition calls_since :: "'a list \<Rightarrow> 'a list \<Rightarrow> 'a list" where
  "calls_since h h' = drop (length h) h'"

text \<open>The events of \<open>TriggerLaunch\<close> and \<open>RevertLaunch\<close>, as they are recorded.\<close>

definition started :: "64 word \<Rightarrow> ncall \<times> error option" where
  "started launchID =
    (Ev_Send (Event StatusOngoing (Sprintf ''Launching chain %d'' [ArgUint launchID])), None)"

definition setting :: "ncall \<times> error option" where
  "setting = (Ev_Send (Event StatusOngoing (Lit ''Setting launch time'')), None)"

definition scheduled :: "64 word \<Rightarrow> Time \<Rightarrow> ncall \<times> error option" where
  "scheduled launchID t =
    (Ev_Send (Event StatusDone
       (Sprintf ''Chain %d will be launched on %s'' [ArgUint launchID, ArgTime t])), None)"

definition reverting :: "64 word \<Rightarrow> ncall \<times> error option" where
  "reverting launchID =
    (Ev_Send (Event StatusOngoing (Sprintf ''Reverting launched chain %d'' [ArgUint launchID])),
     None)"

definition reverted :: "64 word \<Rightarrow> ncall \<times> error option" where
  "reverted launchID =
    (Ev_Send (Event StatusDone (Sprintf ''Chain %d launch was reverted'' [ArgUint launchID])), None)"

definition resetting :: "ncall \<times> error option" where
  "resetting = (Ev_Send (Event StatusOngoing (Lit ''Resetting the genesis time'')), None)"

definition was_reset :: "ncall \<times> error option" where
  "was_reset = (Ev_Send (Event StatusDone (Lit ''Genesis time was reset'')), None)"

text \<open>
  A coordinator for the examples: the launch may be set between 24 and 72 hours from now,
  the clock reads \<open>T0\<close> (some day of the year 2022), every transaction is accepted and its
  response decodes. Two variants: one whose responses do not decode, one whose clock moves
  by a nanosecond between two readings.
\<close>

definition T0 :: Time where
  "T0 = 63800000000000000000"

definition Hour :: Duration where
  "Hour = 3600 * Second"

definition params_24h_72h :: Params where
  "params_24h_72h = \<lparr>LaunchTimeRange = \<lparr>MinLaunchTime = 24 * Hour, MaxLaunchTime = 72 * Hour\<rparr>\<rparr>"

definition coordinator :: Network where
  "coordinator =
    \<lparr>launchQuery_Params = Inr params_24h_72h,
     clock_Now = (\<lambda>k. T0),
     account_Address = Inr ''spn1coordinator'',
     cosmos_BroadcastTx = (\<lambda>msg. Inr (Response None))\<rparr>"

definition undecodable :: Network where
  "undecodable =
    coordinator\<lparr>cosmos_BroadcastTx := (\<lambda>msg. Inr (Response (Some (External ''cannot decode''))))\<rparr>"

definition ticking :: Network where
  "ticking = coordinator\<lparr>clock_Now := (\<lambda>k. T0 + int k)\<rparr>"

text \<open>
  A coordinator whose clock reads \<open>far\<close>, 100 seconds before the last second that a
  \<open>time.Time\<close> can hold.
\<close>

definition far :: Time where
  "far = (2 ^ 63 - 101) * 1000000000"

definition late :: Network where
  "late = coordinator\<lparr>clock_Now := (\<lambda>k. far)\<rparr>"



definition computing :: "ccall \<times> error option" where
  "computing = (Send (Event StatusOngoing (Lit ''Computing the Genesis'')), None)"

definition genesis_initialized :: "ccall \<times> error option" where
  "genesis_initialized = (Send (Event StatusDone (Lit ''Genesis initialized'')), None)"

text \<open>
  A chain for the examples. Its init command writes a genesis file, \<open>''first''\<close> when run by
  \<open>c.chain.Init\<close> and \<open>''second''\<close> when run through the command runner; the remote genesis is
  \<open>''remote''\<close> with hash \<open>''abc''\<close>; nothing fails. The genesis format of the examples is a toy
  one: every \<open>#\<close> in the file is one gentx.
\<close>

definition home_dir :: string where
  "home_dir = ''/home/spn/1''"

definition genesis_json :: string where
  "genesis_json = ''/home/spn/1/config/genesis.json''"

definition toy_parse :: "string \<Rightarrow> error + ChainGenesis" where
  "toy_parse data = Inr \<lparr>GenTxs = map (\<lambda>c. [c]) (filter (\<lambda>c. c = CHR ''#'') data)\<rparr>"

definition node :: Env where
  "node =
    \<lparr>chain_Home = (\<lambda>f. Inr home_dir),
     chain_GenesisPath = (\<lambda>f. Inr genesis_json),
     chain_Build = (\<lambda>f. (f, None)),
     chain_Init = (\<lambda>b f. (f(genesis_json \<mapsto> ''first''), None)),
     chain_Commands = (\<lambda>f. None),
     cmd_Init = (\<lambda>moniker f. (f(genesis_json \<mapsto> ''second''), None)),
     cmd_ValidateGenesis = (\<lambda>f. None),
     cosmosutil_GenesisAndHashFromURL = (\<lambda>url. Inr (''remote'', ''abc'')),
     cosmosutil_ParseChainGenesis = toy_parse,
     os_failure = (\<lambda>c f. None)\<rparr>"


definition local_chain :: Chain where
  "local_chain = \<lparr>genesisURL = '''', genesisHash = '''', isInitialized = False\<rparr>"

definition remote :: Chain where
  "remote = \<lparr>genesisURL = ''https://example.org/genesis.json'', genesisHash = '''',
             isInitialized = False\<rparr>"


definition on_disk :: "string \<Rightarrow> world" where
  "on_disk data = \<lparr>calls = [], files = [genesis_json \<mapsto> data]\<rparr>"

section \<open>TriggerLaunch and RevertLaunch, run by run\<close>

lemma sint_MinLaunchTimeOffset: "sint MinLaunchTimeOffset = 30 * 1000000000"
  by (simp add: MinLaunchTimeOffset_def Second_def)

text \<open>Within the range of \<open>time.Time\<close>, \<open>Add\<close> is the addition of the nanoseconds.\<close>

lemma wrap64_id: "- (2 ^ 63) \<le> x \<Longrightarrow> x < 2 ^ 63 \<Longrightarrow> wrap64 x = x"
  by (simp add: wrap64_def)

lemma addSec_exact:
  assumes "- (2 ^ 63) \<le> ext + d" and "ext + d < 2 ^ 63"
  shows "addSec ext d = ext + d"
  using assms by (auto simp: addSec_def wrap64_id Let_def)

lemma rem_bounds:
  "0 \<le> a \<Longrightarrow> 0 \<le> rem a 1000000000 \<and> rem a 1000000000 < 1000000000"
  "a < 0 \<Longrightarrow> - 1000000000 < rem a 1000000000 \<and> rem a 1000000000 \<le> 0"
proof -
  assume "0 \<le> a"
  then have "rem a 1000000000 = a mod 1000000000"
    by (cases "a = 0") (simp_all add: rem_def quot_def minus_mult_div_eq_mod)
  then show "0 \<le> rem a 1000000000 \<and> rem a 1000000000 < 1000000000" by simp
next
  assume "a < 0"
  then have "rem a 1000000000 = - ((- a) mod 1000000000)"
    by (simp add: rem_def quot_def algebra_simps minus_mult_div_eq_mod [symmetric])
  then show "- 1000000000 < rem a 1000000000 \<and> rem a 1000000000 \<le> 0"
    by (smt (verit) pos_mod_bound pos_mod_sign)
qed

lemma quot_rem: "quot a 1000000000 * 1000000000 + rem a 1000000000 = a"
  by (simp add: rem_def)

lemma representable_div:
  "representable x \<longleftrightarrow> - (2 ^ 63) \<le> x div 1000000000 \<and> x div 1000000000 < 2 ^ 63"
proof -
  have "x = x div 1000000000 * 1000000000 + x mod 1000000000"
    by simp
  moreover have "0 \<le> x mod 1000000000" "x mod 1000000000 < 1000000000"
    by simp_all
  ultimately show ?thesis
    unfolding representable_def by linarith
qed

lemma time_Add_exact:
  assumes "representable t" and "representable (t + sint d)"
  shows "time_Add t d = t + sint d"
proof -
  define S n q r where "S = t div 1000000000" and "n = t mod 1000000000"
    and "q = quot (sint d) 1000000000" and "r = rem (sint d) 1000000000"
  have t: "t = S * 1000000000 + n" and n: "0 \<le> n" "n < 1000000000"
    by (simp_all add: S_def n_def)
  have d: "sint d = q * 1000000000 + r"
    by (simp add: q_def r_def quot_rem)
  have r: "- 1000000000 < r" "r < 1000000000"
    using rem_bounds [of "sint d"] by (cases "0 \<le> sint d"; simp add: r_def)+
  have fit: "- (2 ^ 63) \<le> k" "k < 2 ^ 63"
    if "t + sint d = k * 1000000000 + m" "0 \<le> m" "m < 1000000000" for k m
  proof -
    from that have "(t + sint d) div 1000000000 = k"
      by (simp add: div_pos_pos_trivial)
    with assms(2) show "- (2 ^ 63) \<le> k" "k < 2 ^ 63"
      by (simp_all add: representable_div)
  qed
  have unfold: "time_Add t d =
    (if 1000000000 \<le> n + r then addSec S (q + 1) * 1000000000 + (n + r - 1000000000)
     else if n + r < 0 then addSec S (q - 1) * 1000000000 + (n + r + 1000000000)
     else addSec S q * 1000000000 + (n + r))"
    by (simp add: time_Add_def S_def n_def q_def r_def Let_def)
  have sum: "t + sint d = (S + q) * 1000000000 + (n + r)"
    using t d by (simp add: algebra_simps)
  consider "1000000000 \<le> n + r" | "n + r < 0" | "0 \<le> n + r" "n + r < 1000000000"
    by linarith
  then show ?thesis
  proof cases
    case 1
    have "t + sint d = (S + (q + 1)) * 1000000000 + (n + r - 1000000000)"
      using sum by (simp add: algebra_simps)
    from fit [OF this] 1 n r have "addSec S (q + 1) = S + (q + 1)"
      by (intro addSec_exact) simp_all
    with 1 show ?thesis
      unfolding unfold sum by (simp add: algebra_simps)
  next
    case 2
    have "t + sint d = (S + (q - 1)) * 1000000000 + (n + r + 1000000000)"
      using sum by (simp add: algebra_simps)
    from fit [OF this] 2 n r have "addSec S (q - 1) = S + (q - 1)"
      by (intro addSec_exact) simp_all
    with 2 show ?thesis
      unfolding unfold sum by (simp add: algebra_simps)
  next
    case 3
    from fit [OF sum] 3 have "addSec S q = S + q"
      by (intro addSec_exact) simp_all
    with 3 show ?thesis
      unfolding unfold sum by (simp add: algebra_simps)
  qed
qed

lemma minLaunchTime_exact:
  assumes "representable t"
    and "representable (t + sint (MinLaunchTime (LaunchTimeRange params)))"
    and "representable (t + sint (MinLaunchTime (LaunchTimeRange params)) + 30 * 1000000000)"
  shows "minLaunchTime_of t params =
          t + sint (MinLaunchTime (LaunchTimeRange params)) + 30 * 1000000000"
  using assms
  by (simp add: minLaunchTime_of_def time_Add_exact sint_MinLaunchTimeOffset)

lemma maxLaunchTime_exact:
  assumes "representable t"
    and "representable (t + sint (MaxLaunchTime (LaunchTimeRange params)))"
  shows "maxLaunchTime_of t params = t + sint (MaxLaunchTime (LaunchTimeRange params))"
  using assms by (simp add: maxLaunchTime_of_def time_Add_exact)

text \<open>The bounds of the examples.\<close>

lemmas time_defs =
  minLaunchTime_of_def maxLaunchTime_of_def time_Add_def addSec_def wrap64_def quot_def rem_def
  MinLaunchTimeOffset_def Second_def Hour_def T0_def far_def params_24h_72h_def Let_def

lemma bounds_T0:
  "minLaunchTime_of T0 params_24h_72h = T0 + 86430000000000"
  "maxLaunchTime_of T0 params_24h_72h = T0 + 259200000000000"
  "maxLaunchTime_of (T0 + 1) params_24h_72h = T0 + 259200000000001"
  by (simp_all add: time_defs)

lemma bounds_far:
  "minLaunchTime_of far params_24h_72h = far + 100 * 1000000000"
  "maxLaunchTime_of far params_24h_72h = far + 100 * 1000000000"
  by (simp_all add: time_defs)

lemma readings_simps [simp]:
  "readings [] = 0"
  "readings (x # h) = (if fst x = Clock_Now then Suc (readings h) else readings h)"
  "readings (h @ h') = readings h + readings h'"
  by (simp_all add: readings_def)

lemma calls_since_append [simp]: "calls_since h (h @ new) = new"
  by (simp add: calls_since_def)

lemma calls_since_Nil [simp]: "calls_since [] h = h"
  by (simp add: calls_since_def)

lemma checkLaunchTime_total:
  "checkLaunchTime t lo hi = Inr lo \<and> IsZero t
   \<or> checkLaunchTime t lo hi = Inr t \<and> \<not> IsZero t \<and> lo \<le> t \<and> t \<le> hi
   \<or> checkLaunchTime t lo hi =
        Inl (Errorf ''launch time %s lower than minimum %s'' [ArgTime t, ArgTime lo])
      \<and> \<not> IsZero t \<and> t < lo
   \<or> checkLaunchTime t lo hi =
        Inl (Errorf ''launch time %s bigger than maximum %s'' [ArgTime t, ArgTime hi])
      \<and> \<not> IsZero t \<and> lo \<le> t \<and> hi < t"
  by (auto simp: checkLaunchTime_def Before_def After_def)

text \<open>What \<open>TriggerLaunch\<close> returns and records, by the first step that fails.\<close>

lemma TriggerLaunch_params_fail:
  assumes "launchQuery_Params n = Inl err"
  shows "TriggerLaunch n launchID launchTime h =
          (h @ [started launchID, (LaunchQuery_Params, Some err)], Some err)"
  using assms by (simp add: TriggerLaunch_def LaunchParams_def ev_Send_def started_def)

lemma TriggerLaunch_address_fail:
  assumes "launchQuery_Params n = Inr params" and "account_Address n = Inl err"
  shows "TriggerLaunch n launchID launchTime h =
          (h @ [started launchID, (LaunchQuery_Params, None), (Clock_Now, None), (Clock_Now, None),
                (Account_Address, Some err)], Some err)"
  using assms
  by (simp add: TriggerLaunch_def LaunchParams_def ev_Send_def started_def now_def Address_def Let_def)

lemma TriggerLaunch_check_fail:
  assumes "launchQuery_Params n = Inr params" and "account_Address n = Inr a"
    and "checkLaunchTime launchTime (minLaunchTime_of (clock_Now n (readings h)) params)
           (maxLaunchTime_of (clock_Now n (Suc (readings h))) params) = Inl err"
  shows "TriggerLaunch n launchID launchTime h =
          (h @ [started launchID, (LaunchQuery_Params, None), (Clock_Now, None), (Clock_Now, None),
                (Account_Address, None)], Some err)"
  using assms
  by (simp add: TriggerLaunch_def LaunchParams_def ev_Send_def started_def now_def Address_def Let_def)

lemma TriggerLaunch_broadcast:
  assumes "launchQuery_Params n = Inr params" and "account_Address n = Inr a"
    and "checkLaunchTime launchTime (minLaunchTime_of (clock_Now n (readings h)) params)
           (maxLaunchTime_of (clock_Now n (Suc (readings h))) params) = Inr t"
  shows "TriggerLaunch n launchID launchTime h =
          (case cosmos_BroadcastTx n (MsgTriggerLaunch a launchID t) of
             Inl err \<Rightarrow>
               (h @ [started launchID, (LaunchQuery_Params, None), (Clock_Now, None),
                     (Clock_Now, None), (Account_Address, None), setting,
                     (Cosmos_BroadcastTx (MsgTriggerLaunch a launchID t), Some err)], Some err)
           | Inr res \<Rightarrow>
              (case Decode res of
                 Some err \<Rightarrow>
                   (h @ [started launchID, (LaunchQuery_Params, None), (Clock_Now, None),
                         (Clock_Now, None), (Account_Address, None), setting,
                         (Cosmos_BroadcastTx (MsgTriggerLaunch a launchID t), None),
                         (Res_Decode, Some err)], Some err)
               | None \<Rightarrow>
                   (h @ [started launchID, (LaunchQuery_Params, None), (Clock_Now, None),
                         (Clock_Now, None), (Account_Address, None), setting,
                         (Cosmos_BroadcastTx (MsgTriggerLaunch a launchID t), None),
                         (Res_Decode, None), scheduled launchID t], None)))"
  using assms
  by (simp add: TriggerLaunch_def LaunchParams_def ev_Send_def started_def now_def Address_def
      BroadcastTx_def decode_def setting_def scheduled_def Let_def split: sum.split option.split)

lemma TriggerLaunch_run:
  assumes "TriggerLaunch n launchID launchTime h = (h', r)"
  obtains (stopped) new err where "h' = h @ new" and "r = Some err"
      and "\<forall>x. (Res_Decode, x) \<notin> set new" and "\<forall>t. scheduled launchID t \<notin> set new"
  | (undecoded) pre msg err where "h' = h @ pre @ [(Cosmos_BroadcastTx msg, None), (Res_Decode, Some err)]"
      and "r = Some err"
      and "\<forall>x. (Res_Decode, x) \<notin> set pre" and "\<forall>t. scheduled launchID t \<notin> set pre"
  | (decoded) pre msg t where
      "h' = h @ pre @ [(Cosmos_BroadcastTx msg, None), (Res_Decode, None), scheduled launchID t]"
      and "r = None"
      and "\<forall>x. (Res_Decode, x) \<notin> set pre" and "\<forall>t. scheduled launchID t \<notin> set pre"
proof (cases "launchQuery_Params n")
  case (Inl err)
  from TriggerLaunch_params_fail [OF Inl, of launchID launchTime h] assms
  show ?thesis by (intro stopped [of _ err]) (auto simp: started_def scheduled_def)
next
  case p: (Inr params)
  show ?thesis
  proof (cases "account_Address n")
    case (Inl err)
    from TriggerLaunch_address_fail [OF p Inl, of launchID launchTime h] assms
    show ?thesis by (intro stopped [of _ err]) (auto simp: started_def scheduled_def)
  next
    case a: (Inr a)
    let ?c = "checkLaunchTime launchTime (minLaunchTime_of (clock_Now n (readings h)) params)
           (maxLaunchTime_of (clock_Now n (Suc (readings h))) params)"
    show ?thesis
    proof (cases ?c)
      case (Inl err)
      from TriggerLaunch_check_fail [OF p a Inl, of launchID] assms
      show ?thesis by (intro stopped [of _ err]) (auto simp: started_def scheduled_def)
    next
      case t: (Inr t)
      note run = TriggerLaunch_broadcast [OF p a t, of launchID]
      show ?thesis
      proof (cases "cosmos_BroadcastTx n (MsgTriggerLaunch a launchID t)")
        case (Inl err)
        from run assms Inl
        show ?thesis
          by (intro stopped [of _ err]) (auto simp: started_def scheduled_def setting_def)
      next
        case res: (Inr res)
        show ?thesis
        proof (cases "Decode res")
          case None
          from run assms res None
          show ?thesis
            by (intro decoded [of "[started launchID, (LaunchQuery_Params, None), (Clock_Now, None),
                         (Clock_Now, None), (Account_Address, None), setting]" _ t])
              (auto simp: started_def scheduled_def setting_def)
        next
          case (Some err)
          from run assms res Some
          show ?thesis
            by (intro undecoded [of "[started launchID, (LaunchQuery_Params, None), (Clock_Now, None),
                         (Clock_Now, None), (Account_Address, None), setting]" _ err])
              (auto simp: started_def scheduled_def setting_def)
        qed
      qed
    qed
  qed
qed

lemma RevertLaunch_run:
  "RevertLaunch n launchID chain h =
    (case account_Address n of
       Inl err \<Rightarrow> (h @ [reverting launchID, (Account_Address, Some err)], Some err)
     | Inr a \<Rightarrow>
        (case cosmos_BroadcastTx n (MsgRevertLaunch a launchID) of
           Inl err \<Rightarrow>
             (h @ [reverting launchID, (Account_Address, None),
                   (Cosmos_BroadcastTx (MsgRevertLaunch a launchID), Some err)], Some err)
         | Inr res \<Rightarrow>
            (case ResetGenesisTime chain of
               Some err \<Rightarrow>
                 (h @ [reverting launchID, (Account_Address, None),
                       (Cosmos_BroadcastTx (MsgRevertLaunch a launchID), None),
                       reverted launchID, resetting, (Chain_ResetGenesisTime, Some err)], Some err)
             | None \<Rightarrow>
                 (h @ [reverting launchID, (Account_Address, None),
                       (Cosmos_BroadcastTx (MsgRevertLaunch a launchID), None),
                       reverted launchID, resetting, (Chain_ResetGenesisTime, None), was_reset],
                  None))))"
  by (auto simp: RevertLaunch_def ev_Send_def Address_def BroadcastTx_def Let_def reverting_def
      reverted_def resetting_def was_reset_def split: sum.split option.split)

section \<open>The launch window\<close>

text \<open>
  Claim C1 says that, for every clock reading, the lower bound is the reading plus the
  minimum offset plus 30 seconds and the upper bound the reading plus the maximum offset.
  \<open>Time.Add\<close> does not go beyond the last second that a \<open>time.Time\<close> can hold: with offsets
  of 24 and 72 hours and a clock that reads \<open>far\<close>, 100 seconds before that second, the
  lower bound is \<open>far\<close> plus 100 seconds, not \<open>far\<close> plus 24 hours and 30 seconds, and that
  is the launch time \<open>TriggerLaunch\<close> broadcasts when none is requested.
\<close>

theorem launch_window_saturates:
  "representable far
   \<and> minLaunchTime_of far params_24h_72h = far + 100 * 1000000000
   \<and> far + sint (MinLaunchTime (LaunchTimeRange params_24h_72h)) + 30 * 1000000000
       = far + 86430 * 1000000000
   \<and> TriggerLaunch late 7 0 [] =
       ([started 7, (LaunchQuery_Params, None), (Clock_Now, None), (Clock_Now, None),
         (Account_Address, None), setting,
         (Cosmos_BroadcastTx (MsgTriggerLaunch ''spn1coordinator'' 7 (far + 100 * 1000000000)),
          None),
         (Res_Decode, None), scheduled 7 (far + 100 * 1000000000)], None)"
proof -
  have "TriggerLaunch late 7 0 [] =
       ([started 7, (LaunchQuery_Params, None), (Clock_Now, None), (Clock_Now, None),
         (Account_Address, None), setting,
         (Cosmos_BroadcastTx (MsgTriggerLaunch ''spn1coordinator'' 7 (far + 100 * 1000000000)),
          None),
         (Res_Decode, None), scheduled 7 (far + 100 * 1000000000)], None)"
    by (simp add: TriggerLaunch_broadcast [where params = params_24h_72h
          and a = "''spn1coordinator''" and t = "far + 100 * 1000000000"]
        late_def coordinator_def checkLaunchTime_def IsZero_def bounds_far)
  moreover have "representable far"
    by (simp add: representable_def far_def)
  moreover have "far + sint (MinLaunchTime (LaunchTimeRange params_24h_72h)) + 30 * 1000000000
       = far + 86430 * 1000000000"
    by (simp add: params_24h_72h_def Hour_def Second_def)
  ultimately show ?thesis
    by (simp add: bounds_far)
qed

text \<open>
  Claim C1, amended. For every set of protocol parameters and every clock reading \<open>t\<close> from
  which the additions stay among the instants that a \<open>time.Time\<close> can hold, the lower bound
  computed from \<open>t\<close> is \<open>t\<close> plus the minimum offset plus the 30 seconds of
  \<open>MinLaunchTimeOffset\<close>, and the upper bound computed from \<open>t\<close> is \<open>t\<close> plus the maximum
  offset, with no margin. \<open>TriggerLaunch\<close> reads the clock once for each bound (lines 38 and
  39): it checks the request against the lower bound of its first reading and the upper
  bound of its second, and returns the error of that check.
\<close>

theorem launch_window_bounds:
  "(representable t
    \<and> representable (t + sint (MinLaunchTime (LaunchTimeRange params)))
    \<and> representable (t + sint (MinLaunchTime (LaunchTimeRange params)) + 30 * 1000000000) \<longrightarrow>
      minLaunchTime_of t params
        = t + sint (MinLaunchTime (LaunchTimeRange params)) + 30 * 1000000000)
   \<and> (representable t \<and> representable (t + sint (MaxLaunchTime (LaunchTimeRange params))) \<longrightarrow>
        maxLaunchTime_of t params = t + sint (MaxLaunchTime (LaunchTimeRange params)))
   \<and> (launchQuery_Params n = Inr params \<and> account_Address n = Inr a
        \<and> representable (clock_Now n (readings h))
        \<and> representable (clock_Now n (readings h) + sint (MinLaunchTime (LaunchTimeRange params)))
        \<and> representable (clock_Now n (readings h) + sint (MinLaunchTime (LaunchTimeRange params))
                           + 30 * 1000000000)
        \<and> representable (clock_Now n (Suc (readings h)))
        \<and> representable (clock_Now n (Suc (readings h))
                           + sint (MaxLaunchTime (LaunchTimeRange params)))
        \<and> checkLaunchTime launchTime
             (clock_Now n (readings h) + sint (MinLaunchTime (LaunchTimeRange params))
                + 30 * 1000000000)
             (clock_Now n (Suc (readings h)) + sint (MaxLaunchTime (LaunchTimeRange params)))
           = Inl err
       \<longrightarrow> snd (TriggerLaunch n launchID launchTime h) = Some err)"
proof (intro conjI impI)
  assume "launchQuery_Params n = Inr params \<and> account_Address n = Inr a
        \<and> representable (clock_Now n (readings h))
        \<and> representable (clock_Now n (readings h) + sint (MinLaunchTime (LaunchTimeRange params)))
        \<and> representable (clock_Now n (readings h) + sint (MinLaunchTime (LaunchTimeRange params))
                           + 30 * 1000000000)
        \<and> representable (clock_Now n (Suc (readings h)))
        \<and> representable (clock_Now n (Suc (readings h))
                           + sint (MaxLaunchTime (LaunchTimeRange params)))
        \<and> checkLaunchTime launchTime
             (clock_Now n (readings h) + sint (MinLaunchTime (LaunchTimeRange params))
                + 30 * 1000000000)
             (clock_Now n (Suc (readings h)) + sint (MaxLaunchTime (LaunchTimeRange params)))
           = Inl err"
  then show "snd (TriggerLaunch n launchID launchTime h) = Some err"
    using TriggerLaunch_check_fail [of n params a launchTime h err launchID]
    by (simp add: minLaunchTime_exact maxLaunchTime_exact)
qed (simp_all add: minLaunchTime_exact maxLaunchTime_exact)

text \<open>
  The scenario of the specification: offsets of 24 and 72 hours, the clock at \<open>T0\<close>. A
  request for \<open>T0\<close> plus one hour is refused with the lower bound \<open>T0\<close> + 24 h + 30 s, a
  request for \<open>T0\<close> plus 100 hours with the upper bound \<open>T0\<close> + 72 h.
\<close>

theorem launch_window_bounds_witness:
  "snd (TriggerLaunch coordinator 7 (T0 + sint Hour) []) =
     Some (Errorf ''launch time %s lower than minimum %s''
             [ArgTime (T0 + sint Hour), ArgTime (T0 + sint (24 * Hour) + 30 * 1000000000)])
   \<and> snd (TriggerLaunch coordinator 7 (T0 + sint (100 * Hour)) []) =
     Some (Errorf ''launch time %s bigger than maximum %s''
             [ArgTime (T0 + sint (100 * Hour)), ArgTime (T0 + sint (72 * Hour))])
   \<and> minLaunchTime_of T0 params_24h_72h = T0 + sint (24 * Hour) + 30 * 1000000000
   \<and> maxLaunchTime_of T0 params_24h_72h = T0 + sint (72 * Hour)"
proof -
  have lo: "checkLaunchTime (T0 + sint Hour) (T0 + sint (24 * Hour) + 30 * 1000000000)
              (T0 + sint (72 * Hour)) =
            Inl (Errorf ''launch time %s lower than minimum %s''
             [ArgTime (T0 + sint Hour), ArgTime (T0 + sint (24 * Hour) + 30 * 1000000000)])"
    by (simp add: checkLaunchTime_def IsZero_def Before_def After_def T0_def Hour_def Second_def)
  have hi: "checkLaunchTime (T0 + sint (100 * Hour)) (T0 + sint (24 * Hour) + 30 * 1000000000)
              (T0 + sint (72 * Hour)) =
            Inl (Errorf ''launch time %s bigger than maximum %s''
             [ArgTime (T0 + sint (100 * Hour)), ArgTime (T0 + sint (72 * Hour))])"
    by (simp add: checkLaunchTime_def IsZero_def Before_def After_def T0_def Hour_def Second_def)
  have rep: "representable T0" "representable (T0 + sint (24 * Hour))"
    "representable (T0 + sint (24 * Hour) + 30 * 1000000000)"
    "representable (T0 + sint (72 * Hour))"
    by (simp_all add: representable_def T0_def Hour_def Second_def)
  from launch_window_bounds [where n = coordinator and params = params_24h_72h
      and a = "''spn1coordinator''" and h = "[]" and launchID = 7 and t = T0
      and launchTime = "T0 + sint Hour"] lo
    launch_window_bounds [where n = coordinator and params = params_24h_72h
      and a = "''spn1coordinator''" and h = "[]" and launchID = 7 and t = T0
      and launchTime = "T0 + sint (100 * Hour)"] hi rep
  show ?thesis by (simp add: coordinator_def params_24h_72h_def)
qed

text \<open>
  Claim C2. An absent launch time, which is the zero \<open>time.Time\<close>, becomes the lower bound
  of the window. A present one strictly below the lower bound is refused with the error
  that cites the lower bound. A present one that is neither below the lower bound nor
  above the upper bound is kept as it is. Against a window whose lower bound is not above
  its upper bound (which the specification assumes of every launch window), a present one
  strictly above the upper bound is refused with the error that cites the upper bound, and
  one equal to either bound is kept as it is. In \<open>TriggerLaunch\<close>, once the parameters and
  the address are there, an error of this check is what the run returns, without a
  broadcast, and a launch time that passes it is the one of the transaction that is
  broadcast.
\<close>

theorem launch_time_validated_or_defaulted:
  "(IsZero launchTime \<longrightarrow>
      checkLaunchTime launchTime minLaunchTime maxLaunchTime = Inr minLaunchTime)
   \<and> (\<not> IsZero launchTime \<and> launchTime < minLaunchTime \<longrightarrow>
        checkLaunchTime launchTime minLaunchTime maxLaunchTime =
          Inl (Errorf ''launch time %s lower than minimum %s''
                 [ArgTime launchTime, ArgTime minLaunchTime]))
   \<and> (minLaunchTime \<le> maxLaunchTime \<and> \<not> IsZero launchTime \<and> maxLaunchTime < launchTime \<longrightarrow>
        checkLaunchTime launchTime minLaunchTime maxLaunchTime =
          Inl (Errorf ''launch time %s bigger than maximum %s''
                 [ArgTime launchTime, ArgTime maxLaunchTime]))
   \<and> (minLaunchTime \<le> maxLaunchTime \<and> \<not> IsZero launchTime
        \<and> (launchTime = minLaunchTime \<or> launchTime = maxLaunchTime) \<longrightarrow>
        checkLaunchTime launchTime minLaunchTime maxLaunchTime = Inr launchTime)
   \<and> (\<not> IsZero launchTime \<and> minLaunchTime \<le> launchTime \<and> launchTime \<le> maxLaunchTime \<longrightarrow>
        checkLaunchTime launchTime minLaunchTime maxLaunchTime = Inr launchTime)
   \<and> (launchQuery_Params n = Inr params \<and> account_Address n = Inr a
        \<and> minLaunchTime = minLaunchTime_of (clock_Now n (readings h)) params
        \<and> maxLaunchTime = maxLaunchTime_of (clock_Now n (Suc (readings h))) params \<longrightarrow>
        (case checkLaunchTime launchTime minLaunchTime maxLaunchTime of
           Inl err \<Rightarrow>
             snd (TriggerLaunch n launchID launchTime h) = Some err
           \<and> (\<forall>msg x. (Cosmos_BroadcastTx msg, x)
                 \<notin> set (calls_since h (fst (TriggerLaunch n launchID launchTime h))))
         | Inr t \<Rightarrow>
             (Cosmos_BroadcastTx (MsgTriggerLaunch a launchID t),
              err_of (cosmos_BroadcastTx n (MsgTriggerLaunch a launchID t)))
               \<in> set (calls_since h (fst (TriggerLaunch n launchID launchTime h)))))"
proof (intro conjI impI)
  assume "launchQuery_Params n = Inr params \<and> account_Address n = Inr a
        \<and> minLaunchTime = minLaunchTime_of (clock_Now n (readings h)) params
        \<and> maxLaunchTime = maxLaunchTime_of (clock_Now n (Suc (readings h))) params"
  then have p: "launchQuery_Params n = Inr params" and a: "account_Address n = Inr a"
    and lo: "minLaunchTime = minLaunchTime_of (clock_Now n (readings h)) params"
    and hi: "maxLaunchTime = maxLaunchTime_of (clock_Now n (Suc (readings h))) params"
    by simp_all
  show "case checkLaunchTime launchTime minLaunchTime maxLaunchTime of
           Inl err \<Rightarrow>
             snd (TriggerLaunch n launchID launchTime h) = Some err
           \<and> (\<forall>msg x. (Cosmos_BroadcastTx msg, x)
                 \<notin> set (calls_since h (fst (TriggerLaunch n launchID launchTime h))))
         | Inr t \<Rightarrow>
             (Cosmos_BroadcastTx (MsgTriggerLaunch a launchID t),
              err_of (cosmos_BroadcastTx n (MsgTriggerLaunch a launchID t)))
               \<in> set (calls_since h (fst (TriggerLaunch n launchID launchTime h)))"
  proof (cases "checkLaunchTime launchTime minLaunchTime maxLaunchTime")
    case (Inl err)
    with TriggerLaunch_check_fail [OF p a, of launchTime h err launchID] lo hi
    show ?thesis by (simp add: started_def)
  next
    case (Inr t)
    with TriggerLaunch_broadcast [OF p a, of launchTime h t launchID] lo hi
    show ?thesis by (auto split: sum.split option.split)
  qed
qed (auto simp: checkLaunchTime_def Before_def After_def)

theorem launch_time_validated_or_defaulted_witness:
  "checkLaunchTime 0 100 200 = Inr 100
   \<and> checkLaunchTime 99 100 200 =
       Inl (Errorf ''launch time %s lower than minimum %s'' [ArgTime 99, ArgTime 100])
   \<and> checkLaunchTime 201 100 200 =
       Inl (Errorf ''launch time %s bigger than maximum %s'' [ArgTime 201, ArgTime 200])
   \<and> checkLaunchTime 100 100 200 = Inr 100
   \<and> checkLaunchTime 200 100 200 = Inr 200
   \<and> checkLaunchTime 150 100 200 = Inr 150
   \<and> (Cosmos_BroadcastTx (MsgTriggerLaunch ''spn1coordinator'' 7 (T0 + 86430000000000)), None)
       \<in> set (fst (TriggerLaunch coordinator 7 0 []))"
proof -
  have lo: "minLaunchTime_of (clock_Now coordinator (readings [])) params_24h_72h
      = T0 + 86430000000000"
    and hi: "maxLaunchTime_of (clock_Now coordinator (Suc (readings []))) params_24h_72h
      = T0 + 259200000000000"
    by (simp_all add: coordinator_def bounds_T0)
  have c: "checkLaunchTime 0 (T0 + 86430000000000) (T0 + 259200000000000)
      = Inr (T0 + 86430000000000)"
    by (simp add: checkLaunchTime_def IsZero_def)
  from launch_time_validated_or_defaulted
      [where launchTime = 0 and minLaunchTime = 100 and maxLaunchTime = 200]
    launch_time_validated_or_defaulted
      [where launchTime = 99 and minLaunchTime = 100 and maxLaunchTime = 200]
    launch_time_validated_or_defaulted
      [where launchTime = 201 and minLaunchTime = 100 and maxLaunchTime = 200]
    launch_time_validated_or_defaulted
      [where launchTime = 100 and minLaunchTime = 100 and maxLaunchTime = 200]
    launch_time_validated_or_defaulted
      [where launchTime = 200 and minLaunchTime = 100 and maxLaunchTime = 200]
    launch_time_validated_or_defaulted
      [where launchTime = 150 and minLaunchTime = 100 and maxLaunchTime = 200]
  have checks: "checkLaunchTime 0 100 200 = Inr 100
   \<and> checkLaunchTime 99 100 200 =
       Inl (Errorf ''launch time %s lower than minimum %s'' [ArgTime 99, ArgTime 100])
   \<and> checkLaunchTime 201 100 200 =
       Inl (Errorf ''launch time %s bigger than maximum %s'' [ArgTime 201, ArgTime 200])
   \<and> checkLaunchTime 100 100 200 = Inr 100
   \<and> checkLaunchTime 200 100 200 = Inr 200
   \<and> checkLaunchTime 150 100 200 = Inr 150"
    by (simp add: IsZero_def)
  from launch_time_validated_or_defaulted
      [where launchTime = 0 and minLaunchTime = "T0 + 86430000000000"
         and maxLaunchTime = "T0 + 259200000000000" and n = coordinator
         and params = params_24h_72h and a = "''spn1coordinator''" and h = "[]"
         and launchID = 7] lo hi c
  have "(Cosmos_BroadcastTx (MsgTriggerLaunch ''spn1coordinator'' 7 (T0 + 86430000000000)), None)
       \<in> set (fst (TriggerLaunch coordinator 7 0 []))"
    by (simp add: coordinator_def)
  with checks show ?thesis by simp
qed

text \<open>
  Claim C3. When the parameters were fetched and a launch time is requested that lies
  outside the window, the run records no call of \<open>BroadcastTx\<close>; and when the coordinator's
  address resolves, what it returns is the error citing the bound that the request is
  beyond.
\<close>

theorem out_of_range_rejected_before_broadcast:
  assumes "launchQuery_Params n = Inr params"
    and "\<not> IsZero launchTime"
    and "launchTime < minLaunchTime_of (clock_Now n (readings h)) params
         \<or> maxLaunchTime_of (clock_Now n (Suc (readings h))) params < launchTime"
    and "TriggerLaunch n launchID launchTime h = (h', r)"
  shows "(\<forall>msg x. (Cosmos_BroadcastTx msg, x) \<notin> set (calls_since h h'))
       \<and> (\<forall>a. account_Address n = Inr a \<longrightarrow>
            r = Some (Errorf ''launch time %s lower than minimum %s''
                        [ArgTime launchTime,
                         ArgTime (minLaunchTime_of (clock_Now n (readings h)) params)])
          \<or> r = Some (Errorf ''launch time %s bigger than maximum %s''
                        [ArgTime launchTime,
                         ArgTime (maxLaunchTime_of (clock_Now n (Suc (readings h))) params)]))"
proof (cases "account_Address n")
  case (Inl err)
  from TriggerLaunch_address_fail [OF assms(1) Inl, of launchID launchTime h] assms(4) Inl
  show ?thesis by (auto simp: started_def)
next
  case (Inr a)
  let ?lo = "minLaunchTime_of (clock_Now n (readings h)) params"
  let ?hi = "maxLaunchTime_of (clock_Now n (Suc (readings h))) params"
  from checkLaunchTime_total [of launchTime ?lo ?hi] assms(2,3)
  obtain err where c: "checkLaunchTime launchTime ?lo ?hi = Inl err"
    and e: "err = Errorf ''launch time %s lower than minimum %s'' [ArgTime launchTime, ArgTime ?lo]
          \<or> err = Errorf ''launch time %s bigger than maximum %s'' [ArgTime launchTime, ArgTime ?hi]"
    by auto
  from TriggerLaunch_check_fail [OF assms(1) Inr c, of launchID] assms(4) e
  show ?thesis by (auto simp: started_def)
qed

theorem out_of_range_rejected_before_broadcast_witness:
  "fst (TriggerLaunch ticking 7 (T0 + sint Hour) []) =
     [started 7, (LaunchQuery_Params, None), (Clock_Now, None), (Clock_Now, None),
      (Account_Address, None)]
   \<and> (\<forall>msg x. (Cosmos_BroadcastTx msg, x) \<notin> set (fst (TriggerLaunch ticking 7 (T0 + sint Hour) [])))
   \<and> snd (TriggerLaunch ticking 7 (T0 + sint Hour) []) =
       Some (Errorf ''launch time %s lower than minimum %s''
               [ArgTime (T0 + sint Hour), ArgTime (T0 + sint (24 * Hour) + 30 * 1000000000)])"
proof -
  have p: "launchQuery_Params ticking = Inr params_24h_72h"
    and a: "account_Address ticking = Inr ''spn1coordinator''"
    by (simp_all add: ticking_def coordinator_def)
  have z: "\<not> IsZero (T0 + sint Hour)"
    by (simp add: IsZero_def T0_def Hour_def Second_def)
  have out: "T0 + sint Hour < minLaunchTime_of (clock_Now ticking (readings [])) params_24h_72h
      \<or> maxLaunchTime_of (clock_Now ticking (Suc (readings []))) params_24h_72h < T0 + sint Hour"
    by (simp add: ticking_def coordinator_def bounds_T0 Hour_def Second_def)
  have run: "TriggerLaunch ticking 7 (T0 + sint Hour) [] =
     ([started 7, (LaunchQuery_Params, None), (Clock_Now, None), (Clock_Now, None),
       (Account_Address, None)],
      Some (Errorf ''launch time %s lower than minimum %s''
               [ArgTime (T0 + sint Hour), ArgTime (T0 + sint (24 * Hour) + 30 * 1000000000)]))"
    by (rule trans [OF TriggerLaunch_check_fail [OF p a]])
      (simp_all add: checkLaunchTime_def IsZero_def Before_def ticking_def coordinator_def
        time_defs)
  from out_of_range_rejected_before_broadcast [OF p z out run] run
  show ?thesis by simp
qed

section \<open>The response of the transaction\<close>

text \<open>
  Claim C7. In every run of \<open>TriggerLaunch\<close>: if decoding the response failed, then the
  broadcast had returned without error, the run returns the error of the decoding and the
  event "Chain ... will be launched on ..." is not sent; if that event is sent, it comes
  right after a decoding that succeeded, and the run returns no error; and a run that
  returns no error has sent it.
\<close>

theorem decode_failure_is_reported:
  assumes "TriggerLaunch n launchID launchTime h = (h', r)"
  shows "(\<forall>err. (Res_Decode, Some err) \<in> set (calls_since h h') \<longrightarrow>
            r = Some err
          \<and> (\<exists>msg. (Cosmos_BroadcastTx msg, None) \<in> set (calls_since h h'))
          \<and> (\<forall>t. scheduled launchID t \<notin> set (calls_since h h')))
       \<and> (\<forall>t. scheduled launchID t \<in> set (calls_since h h') \<longrightarrow>
            r = None
          \<and> (\<exists>pre. calls_since h h' = pre @ [(Res_Decode, None), scheduled launchID t]))
       \<and> (r = None \<longrightarrow> (\<exists>t. scheduled launchID t \<in> set (calls_since h h')))"
  using assms
proof (cases rule: TriggerLaunch_run)
  case (stopped new err)
  then show ?thesis by auto
next
  case (undecoded pre msg err)
  then show ?thesis by (auto simp: scheduled_def)
next
  case (decoded pre msg t)
  have "scheduled launchID u = scheduled launchID t \<Longrightarrow> u = t" for u
    by (simp add: scheduled_def)
  with decoded show ?thesis
    by (auto simp: scheduled_def intro: exI [of _ "pre @ [(Cosmos_BroadcastTx msg, None)]"])
qed

theorem decode_failure_is_reported_witness:
  "snd (TriggerLaunch undecodable 7 0 []) = Some (External ''cannot decode'')
   \<and> (Cosmos_BroadcastTx (MsgTriggerLaunch ''spn1coordinator'' 7 (T0 + 86430000000000)), None)
       \<in> set (fst (TriggerLaunch undecodable 7 0 []))
   \<and> (\<forall>t. scheduled 7 t \<notin> set (fst (TriggerLaunch undecodable 7 0 [])))"
proof -
  have run: "TriggerLaunch undecodable 7 0 [] =
    ([started 7, (LaunchQuery_Params, None), (Clock_Now, None), (Clock_Now, None),
      (Account_Address, None), setting,
      (Cosmos_BroadcastTx (MsgTriggerLaunch ''spn1coordinator'' 7 (T0 + 86430000000000)), None),
      (Res_Decode, Some (External ''cannot decode''))], Some (External ''cannot decode''))"
    by (simp add: TriggerLaunch_broadcast [where params = params_24h_72h and a = "''spn1coordinator''"
          and t = "T0 + 86430000000000"]
        undecodable_def coordinator_def checkLaunchTime_def IsZero_def bounds_T0)
  from decode_failure_is_reported [OF run] run
  show ?thesis by simp
qed

text \<open>
  Claim C8 says that neither \<open>TriggerLaunch\<close> nor \<open>RevertLaunch\<close> reports its transaction as
  succeeded without decoding the response. \<open>RevertLaunch\<close> drops the response (line 93): with
  a broadcaster whose responses do not decode, it sends "Chain 7 launch was reverted" and
  returns no error, and \<open>Decode\<close> is not among its calls.
\<close>

theorem revert_reported_without_decoding:
  "RevertLaunch undecodable 7 \<lparr>ResetGenesisTime = None\<rparr> [] =
     ([reverting 7, (Account_Address, None),
       (Cosmos_BroadcastTx (MsgRevertLaunch ''spn1coordinator'' 7), None),
       reverted 7, resetting, (Chain_ResetGenesisTime, None), was_reset], None)
   \<and> cosmos_BroadcastTx undecodable (MsgRevertLaunch ''spn1coordinator'' 7) =
       Inr (Response (Some (External ''cannot decode'')))"
  by (simp add: RevertLaunch_run undecodable_def coordinator_def)

text \<open>
  Claim C8, amended. A run of \<open>TriggerLaunch\<close> that returns no error has decoded the response
  successfully. A run of \<open>RevertLaunch\<close> never decodes the response: it reports the launch as
  reverted exactly when \<open>BroadcastTx\<close> returned without error.
\<close>

theorem trigger_decodes_revert_does_not:
  "(TriggerLaunch n launchID launchTime h = (h', None) \<longrightarrow>
      (Res_Decode, None) \<in> set (calls_since h h'))
   \<and> (\<forall>x. (Res_Decode, x) \<notin> set (calls_since h (fst (RevertLaunch n launchID chain h))))
   \<and> (reverted launchID \<in> set (calls_since h (fst (RevertLaunch n launchID chain h))) \<longleftrightarrow>
        (\<exists>msg. (Cosmos_BroadcastTx msg, None)
                  \<in> set (calls_since h (fst (RevertLaunch n launchID chain h)))))"
proof (intro conjI impI)
  assume "TriggerLaunch n launchID launchTime h = (h', None)"
  then show "(Res_Decode, None) \<in> set (calls_since h h')"
    by (cases rule: TriggerLaunch_run) auto
next
  show "\<forall>x. (Res_Decode, x) \<notin> set (calls_since h (fst (RevertLaunch n launchID chain h)))"
    by (simp add: RevertLaunch_run reverting_def reverted_def resetting_def was_reset_def
        split: sum.split option.split)
next
  show "reverted launchID \<in> set (calls_since h (fst (RevertLaunch n launchID chain h))) \<longleftrightarrow>
        (\<exists>msg. (Cosmos_BroadcastTx msg, None)
                  \<in> set (calls_since h (fst (RevertLaunch n launchID chain h))))"
    by (auto simp add: RevertLaunch_run reverting_def reverted_def resetting_def was_reset_def
        split: sum.split option.split)
qed

theorem trigger_decodes_revert_does_not_witness:
  "(Res_Decode, None) \<in> set (fst (TriggerLaunch coordinator 7 0 []))
   \<and> reverted 7 \<in> set (fst (RevertLaunch coordinator 7 \<lparr>ResetGenesisTime = None\<rparr> []))"
proof -
  have run: "TriggerLaunch coordinator 7 0 [] =
    ([started 7, (LaunchQuery_Params, None), (Clock_Now, None), (Clock_Now, None),
      (Account_Address, None), setting,
      (Cosmos_BroadcastTx (MsgTriggerLaunch ''spn1coordinator'' 7 (T0 + 86430000000000)), None),
      (Res_Decode, None), scheduled 7 (T0 + 86430000000000)], None)"
    by (simp add: TriggerLaunch_broadcast [where params = params_24h_72h and a = "''spn1coordinator''"
          and t = "T0 + 86430000000000"]
        coordinator_def checkLaunchTime_def IsZero_def bounds_T0)
  have sent: "(Cosmos_BroadcastTx (MsgRevertLaunch ''spn1coordinator'' 7), None)
      \<in> set (calls_since [] (fst (RevertLaunch coordinator 7 \<lparr>ResetGenesisTime = None\<rparr> [])))"
    by (simp add: RevertLaunch_run coordinator_def)
  from trigger_decodes_revert_does_not
    [where n = coordinator and launchID = 7 and launchTime = 0 and h = "[]"
       and chain = "\<lparr>ResetGenesisTime = None\<rparr>"] run sent
  show ?thesis by (auto simp: calls_since_def)
qed

section \<open>The zero launch time\<close>

text \<open>
  Claim C10. \<open>TriggerLaunch\<close> takes one \<open>time.Time\<close>, and the zero value is how a caller says
  that no time is requested. With a zero launch time the check returns the lower bound
  whatever the two bounds are, also when the lower bound is above the upper one; once the
  parameters and the address are there, the transaction is broadcast with the lower bound
  as its launch time, and what the run returns is what the broadcast and the decoding
  return, so no error about the range. And whatever the launch time passed, no transaction
  is broadcast with the zero time, as long as the lower bound is not itself the zero time.
\<close>

theorem zero_launch_time_replaced_by_minimum:
  assumes "launchQuery_Params n = Inr params" and "account_Address n = Inr a"
  shows "(IsZero launchTime \<longrightarrow>
            checkLaunchTime launchTime lo hi = Inr lo
          \<and> (Cosmos_BroadcastTx
                (MsgTriggerLaunch a launchID (minLaunchTime_of (clock_Now n (readings h)) params)),
              err_of (cosmos_BroadcastTx n
                (MsgTriggerLaunch a launchID (minLaunchTime_of (clock_Now n (readings h)) params))))
               \<in> set (calls_since h (fst (TriggerLaunch n launchID launchTime h)))
          \<and> snd (TriggerLaunch n launchID launchTime h) =
              (case cosmos_BroadcastTx n
                      (MsgTriggerLaunch a launchID
                         (minLaunchTime_of (clock_Now n (readings h)) params)) of
                 Inl err \<Rightarrow> Some err
               | Inr res \<Rightarrow> Decode res))
       \<and> (minLaunchTime_of (clock_Now n (readings h)) params \<noteq> 0 \<longrightarrow>
            (\<forall>a' i x. (Cosmos_BroadcastTx (MsgTriggerLaunch a' i 0), x)
                        \<notin> set (calls_since h (fst (TriggerLaunch n launchID launchTime h)))))"
proof (intro conjI impI)
  assume z: "IsZero launchTime"
  show "checkLaunchTime launchTime lo hi = Inr lo"
    using z by (simp add: checkLaunchTime_def)
  let ?lo = "minLaunchTime_of (clock_Now n (readings h)) params"
  let ?hi = "maxLaunchTime_of (clock_Now n (Suc (readings h))) params"
  have c: "checkLaunchTime launchTime ?lo ?hi = Inr ?lo"
    using z by (simp add: checkLaunchTime_def)
  note run = TriggerLaunch_broadcast [OF assms c, of launchID]
  show "(Cosmos_BroadcastTx (MsgTriggerLaunch a launchID ?lo),
         err_of (cosmos_BroadcastTx n (MsgTriggerLaunch a launchID ?lo)))
           \<in> set (calls_since h (fst (TriggerLaunch n launchID launchTime h)))"
    by (auto simp: run split: sum.split option.split)
  show "snd (TriggerLaunch n launchID launchTime h) =
          (case cosmos_BroadcastTx n (MsgTriggerLaunch a launchID ?lo) of
             Inl err \<Rightarrow> Some err | Inr res \<Rightarrow> Decode res)"
    by (auto simp: run split: sum.split option.split)
next
  let ?lo = "minLaunchTime_of (clock_Now n (readings h)) params"
  let ?hi = "maxLaunchTime_of (clock_Now n (Suc (readings h))) params"
  assume nz: "?lo \<noteq> 0"
  show "\<forall>a' i x. (Cosmos_BroadcastTx (MsgTriggerLaunch a' i 0), x)
                        \<notin> set (calls_since h (fst (TriggerLaunch n launchID launchTime h)))"
  proof (cases "checkLaunchTime launchTime ?lo ?hi")
    case (Inl err)
    from TriggerLaunch_check_fail [OF assms Inl, of launchID]
    show ?thesis by (simp add: started_def)
  next
    case (Inr t)
    with nz have "t \<noteq> 0"
      by (auto simp: checkLaunchTime_def IsZero_def split: if_splits)
    with TriggerLaunch_broadcast [OF assms Inr, of launchID]
    show ?thesis
      by (auto simp: started_def setting_def scheduled_def split: sum.split option.split)
  qed
qed

theorem zero_launch_time_replaced_by_minimum_witness:
  "checkLaunchTime 0 (T0 + 86430000000000) T0 = Inr (T0 + 86430000000000)
   \<and> (Cosmos_BroadcastTx (MsgTriggerLaunch ''spn1coordinator'' 7 (T0 + 86430000000000)), None)
       \<in> set (fst (TriggerLaunch coordinator 7 0 []))
   \<and> snd (TriggerLaunch coordinator 7 0 []) = None"
proof -
  have p: "launchQuery_Params coordinator = Inr params_24h_72h"
    and a: "account_Address coordinator = Inr ''spn1coordinator''"
    by (simp_all add: coordinator_def)
  have lo: "minLaunchTime_of (clock_Now coordinator (readings [])) params_24h_72h
      = T0 + 86430000000000"
    by (simp add: coordinator_def bounds_T0)
  from zero_launch_time_replaced_by_minimum [OF p a, of 0 "T0 + 86430000000000" T0 7 "[]"] lo
  show ?thesis by (auto simp: IsZero_def coordinator_def T0_def)
qed

section \<open>Init, initGenesis and checkInitialGenesis, run by run\<close>

lemmas step_defs =
  record_call_def send_def Home_def GenesisPath_def Build_def chainInit_def Commands_def
  cmdInit_def ValidateGenesis_def GenesisAndHashFromURL_def ParseChainGenesis_def RemoveAll_def WriteFile_def ReadFile_def

text \<open>
  What a run of each method adds to the recorded calls: a call that returned an error ends
  the run with that error, and a run without error has made the calls listed.
\<close>

lemma checkInitialGenesis_run:
  assumes "checkInitialGenesis E w = (w', r)"
  shows "\<exists>new. calls w' = calls w @ new \<and> files w' = files w
      \<and> (\<forall>x\<in>set new. \<forall>err. snd x = Some err \<longrightarrow> r = Some err)
      \<and> (\<forall>url x. (Cosmosutil_GenesisAndHashFromURL url, x) \<notin> set new)
      \<and> (\<forall>p d x. (Os_WriteFile p d, x) \<notin> set new)
      \<and> (r = None \<longrightarrow>
           (\<exists>p. new = [(Chain_Commands, None), (Chain_GenesisPath, None), (Os_ReadFile p, None),
                       (Cosmosutil_ParseChainGenesis, None), (Cmd_ValidateGenesis, None)]))"
  using assms
  by (auto simp: checkInitialGenesis_def step_defs Let_def
      split: prod.splits sum.splits option.splits if_splits)

lemma initGenesis_run:
  assumes "initGenesis E c w = (c', w', r)"
  shows "\<exists>new. calls w' = calls w @ new \<and> isInitialized c' = isInitialized c
      \<and> genesisURL c' = genesisURL c
      \<and> (\<forall>x\<in>set new. \<forall>err. snd x = Some err \<longrightarrow> r = Some err)
      \<and> (genesisURL c = '''' \<longrightarrow> c' = c \<and>
            (\<forall>url x. (Cosmosutil_GenesisAndHashFromURL url, x) \<notin> set new)
          \<and> (\<forall>p d x. (Os_WriteFile p d, x) \<notin> set new))
      \<and> (r = None \<longrightarrow>
           (\<exists>gp acq p.
              new = [computing, (Chain_GenesisPath, None), (Os_RemoveAll gp, None)] @ acq
                    @ [(Chain_Commands, None), (Chain_GenesisPath, None), (Os_ReadFile p, None),
                       (Cosmosutil_ParseChainGenesis, None), (Cmd_ValidateGenesis, None), genesis_initialized]
              \<and> (acq = [(Chain_Commands, None), (Cmd_Init ''moniker'', None)]
                 \<or> (\<exists>g. acq = [(Cosmosutil_GenesisAndHashFromURL (genesisURL c), None),
                               (Os_WriteFile gp g, None)]))))"
  using assms
  by (auto simp: initGenesis_def step_defs Let_def computing_def genesis_initialized_def
      split: prod.splits sum.splits option.splits if_splits
      dest!: checkInitialGenesis_run)


section \<open>The genesis from a URL\<close>

text \<open>
  Claim C4. With a genesis URL configured, once the genesis path is known, the old file
  removed and the genesis fetched: if the chain has no genesis hash, the fetched hash is
  the chain's genesis hash when \<open>initGenesis\<close> returns; if it has one that differs from the
  fetched hash, \<open>initGenesis\<close> returns the error made of the URL, the expected hash and the
  actual hash, the fetch is its last call, so nothing is written, and there is no file at
  the genesis path.
\<close>

theorem remote_genesis_hash_checked:
  assumes "genesisURL c \<noteq> ''''"
    and "chain_GenesisPath E (files w) = Inr genesisPath"
    and "os_failure E (Os_RemoveAll genesisPath) (files w) = None"
    and "cosmosutil_GenesisAndHashFromURL E (genesisURL c) = Inr (genesis, hash)"
    and "initGenesis E c w = (c', w', r)"
  shows "(genesisHash c = '''' \<longrightarrow> genesisHash c' = hash)
       \<and> (genesisHash c \<noteq> '''' \<and> hash \<noteq> genesisHash c \<longrightarrow>
            r = Some (Errorf ''genesis from URL %s is invalid. expected hash %s, actual hash %s''
                        [ArgString (genesisURL c), ArgString (genesisHash c), ArgString hash])
          \<and> calls_since (calls w) (calls w') =
              [computing, (Chain_GenesisPath, None), (Os_RemoveAll genesisPath, None),
               (Cosmosutil_GenesisAndHashFromURL (genesisURL c), None)]
          \<and> files w' = remove_tree genesisPath (files w)
          \<and> files w' genesisPath = None
          \<and> c' = c)"
  using assms
  by (auto simp: initGenesis_def step_defs Let_def computing_def remove_tree_def
      split: prod.splits sum.splits option.splits if_splits)

theorem remote_genesis_hash_checked_witness:
  "genesisHash (fst (initGenesis node remote (on_disk ''first''))) = ''abc''
   \<and> snd (snd (initGenesis node (remote\<lparr>genesisHash := ''xyz''\<rparr>) (on_disk ''first''))) =
       Some (Errorf ''genesis from URL %s is invalid. expected hash %s, actual hash %s''
               [ArgString ''https://example.org/genesis.json'', ArgString ''xyz'', ArgString ''abc''])
   \<and> files (fst (snd (initGenesis node (remote\<lparr>genesisHash := ''xyz''\<rparr>) (on_disk ''first''))))
       genesis_json = None"
proof -
  have u: "genesisURL remote \<noteq> ''''" "genesisURL (remote\<lparr>genesisHash := ''xyz''\<rparr>) \<noteq> ''''"
    by (simp_all add: remote_def)
  have p: "chain_GenesisPath node (files (on_disk ''first'')) = Inr genesis_json"
    and o: "os_failure node (Os_RemoveAll genesis_json) (files (on_disk ''first'')) = None"
    and f: "cosmosutil_GenesisAndHashFromURL node (genesisURL remote) = Inr (''remote'', ''abc'')"
    and f': "cosmosutil_GenesisAndHashFromURL node (genesisURL (remote\<lparr>genesisHash := ''xyz''\<rparr>))
              = Inr (''remote'', ''abc'')"
    by (simp_all add: node_def)
  obtain c1 w1 r1 where r1: "initGenesis node remote (on_disk ''first'') = (c1, w1, r1)"
    by (cases "initGenesis node remote (on_disk ''first'')") auto
  obtain c2 w2 r2 where
    r2: "initGenesis node (remote\<lparr>genesisHash := ''xyz''\<rparr>) (on_disk ''first'') = (c2, w2, r2)"
    by (cases "initGenesis node (remote\<lparr>genesisHash := ''xyz''\<rparr>) (on_disk ''first'')") auto
  from remote_genesis_hash_checked [OF u(1) p o f r1]
    remote_genesis_hash_checked [OF u(2) p o f' r2] r1 r2
  show ?thesis by (simp add: remote_def remove_tree_def)
qed

section \<open>Gentxs in the initial genesis\<close>

text \<open>
  Claim C5 says that the error for a genesis file with N gentxs reports N. The error is
  made by \<open>errors.New\<close> from a fixed text (line 237): a file with one gentx and a file with
  two get the same error, with no number in it.
\<close>

theorem gentx_error_carries_no_count:
  "GenTxCount \<lparr>GenTxs = [''#'']\<rparr> = 1
   \<and> GenTxCount \<lparr>GenTxs = [''#'', ''#'']\<rparr> = 2
   \<and> cosmosutil_ParseChainGenesis node ''#'' = Inr \<lparr>GenTxs = [''#'']\<rparr>
   \<and> cosmosutil_ParseChainGenesis node ''##'' = Inr \<lparr>GenTxs = [''#'', ''#'']\<rparr>
   \<and> snd (checkInitialGenesis node (on_disk ''#'')) =
       Some (ErrorsNew ''the initial genesis for the chain should not contain gentx'')
   \<and> snd (checkInitialGenesis node (on_disk ''##'')) =
       Some (ErrorsNew ''the initial genesis for the chain should not contain gentx'')"
  by (simp add: checkInitialGenesis_def step_defs node_def on_disk_def toy_parse_def GenTxCount_def)

text \<open>
  Claim C5, amended. For every persisted genesis file that parses to a genesis with at
  least one gentx, \<open>checkInitialGenesis\<close> returns the error "the initial genesis for the
  chain should not contain gentx", the same whatever the count, after parsing the file and
  without running the validate-genesis command.
\<close>

theorem presubmitted_gentx_rejected:
  assumes "chain_Commands E (files w) = None"
    and "chain_GenesisPath E (files w) = Inr genesisPath"
    and "os_failure E (Os_ReadFile genesisPath) (files w) = None"
    and "files w genesisPath = Some genesisFile"
    and "cosmosutil_ParseChainGenesis E genesisFile = Inr chainGenesis"
    and "GenTxCount chainGenesis > 0"
  shows "checkInitialGenesis E w =
          (w\<lparr>calls := calls w @ [(Chain_Commands, None), (Chain_GenesisPath, None),
                                  (Os_ReadFile genesisPath, None),
                                  (Cosmosutil_ParseChainGenesis, None)]\<rparr>,
           Some (ErrorsNew ''the initial genesis for the chain should not contain gentx''))"
  using assms by (simp add: checkInitialGenesis_def step_defs)

theorem presubmitted_gentx_rejected_witness:
  "checkInitialGenesis node (on_disk ''##'') =
     (\<lparr>calls = [(Chain_Commands, None), (Chain_GenesisPath, None), (Os_ReadFile genesis_json, None),
               (Cosmosutil_ParseChainGenesis, None)],
       files = [genesis_json \<mapsto> ''##'']\<rparr>,
      Some (ErrorsNew ''the initial genesis for the chain should not contain gentx''))"
  using presubmitted_gentx_rejected [of node "on_disk ''##''" genesis_json "''##''"
      "\<lparr>GenTxs = [''#'', ''#'']\<rparr>"]
  by (simp add: node_def on_disk_def toy_parse_def GenTxCount_def)

section \<open>The default genesis\<close>

text \<open>
  Claim C6 says that without a genesis URL the file left by the init command of \<open>Init\<close> is
  used as it is, neither deleted nor regenerated. \<open>initGenesis\<close> removes the genesis file
  (line 168) and, having no URL, runs the init command again (line 200): the file
  \<open>''first''\<close> is gone, and the genesis that is validated is \<open>''second''\<close>.
\<close>

theorem default_genesis_removed_and_regenerated:
  "files (on_disk ''first'') genesis_json = Some ''first''
   \<and> calls (fst (snd (initGenesis node local_chain (on_disk ''first'')))) =
       [computing, (Chain_GenesisPath, None), (Os_RemoveAll genesis_json, None),
        (Chain_Commands, None), (Cmd_Init ''moniker'', None),
        (Chain_Commands, None), (Chain_GenesisPath, None), (Os_ReadFile genesis_json, None),
        (Cosmosutil_ParseChainGenesis, None), (Cmd_ValidateGenesis, None), genesis_initialized]
   \<and> files (fst (snd (initGenesis node local_chain (on_disk ''first'')))) genesis_json =
       Some ''second''
   \<and> snd (snd (initGenesis node local_chain (on_disk ''first''))) = None"
  by (simp add: initGenesis_def checkInitialGenesis_def step_defs Let_def node_def local_chain_def
      on_disk_def toy_parse_def GenTxCount_def computing_def genesis_initialized_def
      remove_tree_def)

text \<open>
  Claim C6, amended. Without a genesis URL, no run of \<open>initGenesis\<close> fetches anything, and
  the chain record is left as it was. Once the genesis path is known, the file at that
  path removed and the command runner obtained, the run goes on with the init command,
  with the moniker "moniker", on files that have nothing at the genesis path, and the
  files it ends with are the files that this command leaves. A run that returns no error
  has made these calls without error, then read, parsed and validated the file at the
  genesis path.
\<close>

theorem default_genesis_without_fetch:
  assumes "genesisURL c = ''''" and "initGenesis E c w = (c', w', r)"
  shows "(\<forall>url x. (Cosmosutil_GenesisAndHashFromURL url, x)
                    \<notin> set (calls_since (calls w) (calls w')))
       \<and> c' = c
       \<and> (\<forall>genesisPath.
             chain_GenesisPath E (files w) = Inr genesisPath
           \<and> os_failure E (Os_RemoveAll genesisPath) (files w) = None
           \<and> chain_Commands E (remove_tree genesisPath (files w)) = None \<longrightarrow>
             remove_tree genesisPath (files w) genesisPath = None
           \<and> take 5 (calls_since (calls w) (calls w')) =
               [computing, (Chain_GenesisPath, None), (Os_RemoveAll genesisPath, None),
                (Chain_Commands, None),
                (Cmd_Init ''moniker'',
                 snd (cmd_Init E ''moniker'' (remove_tree genesisPath (files w))))]
           \<and> files w' = fst (cmd_Init E ''moniker'' (remove_tree genesisPath (files w))))
       \<and> (r = None \<longrightarrow>
            (\<exists>genesisPath.
               chain_GenesisPath E (files w) = Inr genesisPath
             \<and> os_failure E (Os_RemoveAll genesisPath) (files w) = None
             \<and> chain_Commands E (remove_tree genesisPath (files w)) = None
             \<and> snd (cmd_Init E ''moniker'' (remove_tree genesisPath (files w))) = None
             \<and> (\<exists>p. chain_GenesisPath E (files w') = Inr p
                 \<and> calls_since (calls w) (calls w') =
                     [computing, (Chain_GenesisPath, None), (Os_RemoveAll genesisPath, None),
                      (Chain_Commands, None), (Cmd_Init ''moniker'', None),
                      (Chain_Commands, None), (Chain_GenesisPath, None), (Os_ReadFile p, None),
                      (Cosmosutil_ParseChainGenesis, None), (Cmd_ValidateGenesis, None),
                      genesis_initialized])))"
proof (intro conjI)
  from initGenesis_run [OF assms(2)] assms(1)
  obtain new where "calls w' = calls w @ new" and "c' = c"
    and "\<forall>url x. (Cosmosutil_GenesisAndHashFromURL url, x) \<notin> set new"
    by blast
  then show "\<forall>url x. (Cosmosutil_GenesisAndHashFromURL url, x)
                    \<notin> set (calls_since (calls w) (calls w'))"
    and "c' = c"
    by simp_all
next
  show "\<forall>genesisPath.
             chain_GenesisPath E (files w) = Inr genesisPath
           \<and> os_failure E (Os_RemoveAll genesisPath) (files w) = None
           \<and> chain_Commands E (remove_tree genesisPath (files w)) = None \<longrightarrow>
             remove_tree genesisPath (files w) genesisPath = None
           \<and> take 5 (calls_since (calls w) (calls w')) =
               [computing, (Chain_GenesisPath, None), (Os_RemoveAll genesisPath, None),
                (Chain_Commands, None),
                (Cmd_Init ''moniker'',
                 snd (cmd_Init E ''moniker'' (remove_tree genesisPath (files w))))]
           \<and> files w' = fst (cmd_Init E ''moniker'' (remove_tree genesisPath (files w)))"
    using assms
    by (auto simp: initGenesis_def step_defs Let_def computing_def remove_tree_def
        split: prod.splits sum.splits option.splits if_splits
        dest!: checkInitialGenesis_run)
next
  show "r = None \<longrightarrow>
            (\<exists>genesisPath.
               chain_GenesisPath E (files w) = Inr genesisPath
             \<and> os_failure E (Os_RemoveAll genesisPath) (files w) = None
             \<and> chain_Commands E (remove_tree genesisPath (files w)) = None
             \<and> snd (cmd_Init E ''moniker'' (remove_tree genesisPath (files w))) = None
             \<and> (\<exists>p. chain_GenesisPath E (files w') = Inr p
                 \<and> calls_since (calls w) (calls w') =
                     [computing, (Chain_GenesisPath, None), (Os_RemoveAll genesisPath, None),
                      (Chain_Commands, None), (Cmd_Init ''moniker'', None),
                      (Chain_Commands, None), (Chain_GenesisPath, None), (Os_ReadFile p, None),
                      (Cosmosutil_ParseChainGenesis, None), (Cmd_ValidateGenesis, None),
                      genesis_initialized]))"
    using assms
    by (auto simp: initGenesis_def checkInitialGenesis_def step_defs Let_def computing_def
        genesis_initialized_def
        split: prod.splits sum.splits option.splits if_splits)
qed

theorem default_genesis_without_fetch_witness:
  "(\<forall>url x. (Cosmosutil_GenesisAndHashFromURL url, x)
       \<notin> set (calls (fst (snd (initGenesis node local_chain (on_disk ''first''))))))
   \<and> take 5 (calls (fst (snd (initGenesis node local_chain (on_disk ''first''))))) =
       [computing, (Chain_GenesisPath, None), (Os_RemoveAll genesis_json, None),
        (Chain_Commands, None), (Cmd_Init ''moniker'', None)]
   \<and> files (fst (snd (initGenesis node local_chain (on_disk ''first'')))) genesis_json =
       Some ''second''"
proof -
  have u: "genesisURL local_chain = ''''"
    by (simp add: local_chain_def)
  have g: "chain_GenesisPath node (files (on_disk ''first'')) = Inr genesis_json"
    "os_failure node (Os_RemoveAll genesis_json) (files (on_disk ''first'')) = None"
    "chain_Commands node (remove_tree genesis_json (files (on_disk ''first''))) = None"
    "cmd_Init node ''moniker'' (remove_tree genesis_json (files (on_disk ''first''))) =
      ((remove_tree genesis_json (files (on_disk ''first'')))(genesis_json \<mapsto> ''second''), None)"
    by (simp_all add: node_def)
  obtain c1 w1 r1 where run: "initGenesis node local_chain (on_disk ''first'') = (c1, w1, r1)"
    by (cases "initGenesis node local_chain (on_disk ''first'')") auto
  from default_genesis_without_fetch [OF u run] g run
  show ?thesis by (auto simp: on_disk_def)
qed

section \<open>The initialization flag\<close>



end
